theory Spec2Isabelle
  imports Main
begin

section \<open>Data model\<close>

text \<open>
  The values that travel through the build: JSON-like data (the command arguments, the
  metadata facet, the entries of a state dictionary and the metadata index), exceptions,
  and POSIX paths as \<^verbatim>\<open>pathlib\<close> keeps them (a root and a list of parts).
  A Python \<^verbatim>\<open>dict\<close> is an association list in insertion order.
\<close>

datatype json =
    JNull
  | JBool bool
  | JInt int
  | JStr string
  | JList "json list"
  | JDict "(string \<times> json) list"

datatype exn =
    ValueError string
  | AttributeError string
  | TypeError string
  | FileNotFoundError string
  | IsADirectoryError string
  | Raised string

datatype path = PurePath (root: string) (parts: "string list")

text \<open>A document of the Document Source: the pair (location, name) the reader yields.\<close>

type_synonym document = "string \<times> string"

text \<open>
  The filesystem calls the builders issue, in the order they are issued:
  \<^verbatim>\<open>Path.mkdir(parents=True, exist_ok=True)\<close>, \<^verbatim>\<open>Path.write_text\<close>,
  \<^verbatim>\<open>json.dump\<close> into a file opened for writing, \<^verbatim>\<open>shutil.copy\<close> and
  \<^verbatim>\<open>distutils.dir_util.copy_tree\<close>. The log is the history of the filesystem: a
  directory exists when a call of the history created it, so a world with an empty log is
  a fresh filesystem and a directory that is there beforehand is an earlier \<open>MkdirP\<close>.
  A file can be written only into a directory that exists. Other refusals of the operating
  system (permissions, a file in the place of a directory, a missing input of a copy) are
  not modelled.
\<close>

datatype fs_op =
    MkdirP path
  | WriteText path string
  | WriteJson path json
  | CopyFile string path
  | CopyTree string string

text \<open>
  A state dictionary is a mutable object: the world keeps a heap of dictionaries, and a
  state value is the address of one. The world also keeps the log of filesystem calls and
  the documents whose bundle has been requested from the extraction pipeline.
\<close>

type_synonym ref = nat

record world =
  heap :: "(string \<times> json) list list"
  fs_log :: "fs_op list"
  pulled :: "document list"

text \<open>The extractors \<^verbatim>\<open>StaticHTMLBuilder.__init__\<close> configures.\<close>

datatype extractor =
    MetadataExtractor string bool
  | HTMLExtractor string "string option"

text \<open>
  Python objects: some values that are not builders, and the instances of
  \<^verbatim>\<open>Builder\<close> and of its subclasses. \<^verbatim>\<open>BuilderChain(*steps)\<close> stores whatever it is
  given, so its steps are arbitrary objects. \<open>UserBuilder\<close> is an instance of a subclass
  of \<^verbatim>\<open>Builder\<close> defined outside this package that supplies its own \<^verbatim>\<open>run\<close>; the
  argument of that \<^verbatim>\<open>run\<close> is \<open>None\<close> when the caller passes no state.
\<close>

datatype pyobj =
    PyNone
  | PyInt int
  | PyStr string
  | PyList "pyobj list"
  | Builder
  | BuilderChain "pyobj list"
  | CopyIPynbBuilder "document list" path
  | CopyTreeBuilder string string
  | StaticHTMLBuilder "document list" path json bool "extractor list"
  | UserBuilder "ref option \<Rightarrow> world \<Rightarrow> (exn + ref) \<times> world"

section \<open>Builder composition\<close>

fun isinstance_BuilderChain :: "pyobj \<Rightarrow> bool" where
  "isinstance_BuilderChain (BuilderChain steps) = True"
| "isinstance_BuilderChain _ = False"

fun isinstance_Builder :: "pyobj \<Rightarrow> bool" where
  "isinstance_Builder PyNone = False"
| "isinstance_Builder (PyInt i) = False"
| "isinstance_Builder (PyStr s) = False"
| "isinstance_Builder (PyList xs) = False"
| "isinstance_Builder _ = True"

text \<open>\<^verbatim>\<open>other.steps\<close>, read only after \<^verbatim>\<open>isinstance(other, BuilderChain)\<close>.\<close>

fun steps :: "pyobj \<Rightarrow> pyobj list" where
  "steps (BuilderChain ss) = ss"
| "steps _ = []"

text \<open>\<^verbatim>\<open>type(other)\<close> as the \<^verbatim>\<open>%s\<close> of the error message prints it.\<close>

fun type_str :: "pyobj \<Rightarrow> string" where
  "type_str PyNone = ''<class 'NoneType'>''"
| "type_str (PyInt i) = ''<class 'int'>''"
| "type_str (PyStr s) = ''<class 'str'>''"
| "type_str (PyList xs) = ''<class 'list'>''"
| "type_str Builder = ''<class 'planetaryum.builders.Builder'>''"
| "type_str (BuilderChain ss) = ''<class 'planetaryum.builders.BuilderChain'>''"
| "type_str (CopyIPynbBuilder r d) = ''<class 'planetaryum.builders.CopyIPynbBuilder'>''"
| "type_str (CopyTreeBuilder s d) = ''<class 'planetaryum.builders.CopyTreeBuilder'>''"
| "type_str (StaticHTMLBuilder r out c wc es) = ''<class 'planetaryum.builders.StaticHTMLBuilder'>''"
| "type_str (UserBuilder f) = ''<class 'UserBuilder'>''"

text \<open>\<^verbatim>\<open>Builder.__rshift__\<close>.\<close>

definition Builder_rshift :: "pyobj \<Rightarrow> pyobj \<Rightarrow> exn + pyobj" where
  "Builder_rshift self other =
     (if isinstance_BuilderChain other then Inr (BuilderChain (self # steps other))
      else if isinstance_Builder other then Inr (BuilderChain [self, other])
      else Inl (ValueError (''Expected object of type Builder, found '' @ type_str other)))"

text \<open>\<^verbatim>\<open>BuilderChain.__rshift__\<close>, which overrides it.\<close>

definition BuilderChain_rshift :: "pyobj \<Rightarrow> pyobj \<Rightarrow> exn + pyobj" where
  "BuilderChain_rshift self other =
     (if isinstance_BuilderChain other then Inr (BuilderChain (steps self @ steps other))
      else if isinstance_Builder other then Inr (BuilderChain (steps self @ [other]))
      else Inl (ValueError (''Expected object of type Builder, found '' @ type_str other)))"

text \<open>
  The expression \<^verbatim>\<open>self >> other\<close> for a \<^verbatim>\<open>self\<close> that is a Builder: the method of the
  most derived class is called. The classes of this package define no reflected operator,
  and a left operand that is no Builder is not a composition of builders.
\<close>

definition rshift :: "pyobj \<Rightarrow> pyobj \<Rightarrow> exn + pyobj" where
  "rshift self other =
     (if isinstance_BuilderChain self then BuilderChain_rshift self other
      else if isinstance_Builder self then Builder_rshift self other
      else Inl (TypeError ''unsupported operand type(s) for >>''))"

section \<open>Paths and formatting\<close>

text \<open>\<^verbatim>\<open>s.split('/')\<close>.\<close>

fun split_sep :: "string \<Rightarrow> string list" where
  "split_sep [] = [[]]"
| "split_sep (c # cs) =
     (if c = CHR ''/'' then [] # split_sep cs
      else (case split_sep cs of [] \<Rightarrow> [[c]] | p # ps \<Rightarrow> (c # p) # ps))"

text \<open>
  \<^verbatim>\<open>Path(s)\<close> on POSIX: exactly two leading slashes are the root \<^verbatim>\<open>//\<close>, any other
  number of them the root \<^verbatim>\<open>/\<close>; empty components and \<^verbatim>\<open>.\<close> are dropped.
\<close>

definition Path :: "string \<Rightarrow> path" where
  "Path s =
     (let n = length (takeWhile (\<lambda>c. c = CHR ''/'') s)
      in PurePath (if n = 0 then [] else if n = 2 then ''//'' else ''/'')
                  (filter (\<lambda>p. p \<noteq> [] \<and> p \<noteq> ''.'') (split_sep s)))"

text \<open>\<^verbatim>\<open>p / s\<close>: a rooted right operand replaces the left one.\<close>

definition path_join :: "path \<Rightarrow> string \<Rightarrow> path" where
  "path_join p s =
     (let q = Path s
      in if root q \<noteq> [] then q else PurePath (root p) (parts p @ parts q))"

fun intercalate :: "string \<Rightarrow> string list \<Rightarrow> string" where
  "intercalate sep [] = []"
| "intercalate sep [x] = x"
| "intercalate sep (x # y # ys) = x @ sep @ intercalate sep (y # ys)"

text \<open>\<^verbatim>\<open>str(p)\<close>.\<close>

definition path_str :: "path \<Rightarrow> string" where
  "path_str p =
     (if root p = [] \<and> parts p = [] then ''.'' else root p @ intercalate ''/'' (parts p))"

fun is_prefix :: "string list \<Rightarrow> string list \<Rightarrow> bool" where
  "is_prefix [] ys = True"
| "is_prefix (x # xs) [] = False"
| "is_prefix (x # xs) (y # ys) = (x = y \<and> is_prefix xs ys)"

text \<open>\<^verbatim>\<open>p.relative_to(other)\<close>: a \<^verbatim>\<open>ValueError\<close> unless \<open>other\<close> is an ancestor of \<open>p\<close>.\<close>

definition relative_to :: "path \<Rightarrow> path \<Rightarrow> exn + path" where
  "relative_to p other =
     (if root p = root other \<and> is_prefix (parts other) (parts p)
      then Inr (PurePath [] (drop (length (parts other)) (parts p)))
      else Inl (ValueError (path_str p @ '' is not in the subpath of '' @ path_str other)))"

definition digit_char :: "nat \<Rightarrow> char" where
  "digit_char d = ''0123456789'' ! d"

text \<open>\<^verbatim>\<open>'%d' % i\<close> for the non-negative index \<^verbatim>\<open>enumerate\<close> gives.\<close>

fun decimal :: "nat \<Rightarrow> string" where
  "decimal n = (if n < 10 then [digit_char n] else decimal (n div 10) @ [digit_char (n mod 10)])"

declare decimal.simps [simp del]

section \<open>The extraction pipeline\<close>

text \<open>
  The \<^verbatim>\<open>html\<close> facet of a bundle: \<^verbatim>\<open>data['html']['html']\<close> and
  \<^verbatim>\<open>data['html']['meta']['inlining']['css']\<close>.
\<close>

record html_facet =
  html_html :: string
  inlining_css :: "string list"

record result_bundle =
  b_name :: string
  b_meta :: json
  b_html :: html_facet

text \<open>
  The external collaborators (the extractors and the renderer behind them) are a parameter:
  what the configured extractors compute for a document, or the exception they raise.
\<close>

type_synonym conversion = "extractor list \<Rightarrow> document \<Rightarrow> exn + (json \<times> html_facet)"

text \<open>
  Modelled from the spec: \<^verbatim>\<open>extractors.extract\<close> is not among the sources. For each
  document of the reader, in the reader's order, the pipeline runs the configured
  extractors and yields one bundle holding the facets and the document's name; it is lazy,
  so a failure surfaces when that document's bundle is requested, and the documents after
  it are not touched. \<open>extract_next\<close> is one pull from that generator.
\<close>

definition extract_document :: "conversion \<Rightarrow> extractor list \<Rightarrow> document \<Rightarrow> exn + result_bundle" where
  "extract_document cv exts d =
     (case cv exts d of
        Inl e \<Rightarrow> Inl e
      | Inr (m, h) \<Rightarrow> Inr \<lparr>b_name = snd d, b_meta = m, b_html = h\<rparr>)"

definition extract_next :: "conversion \<Rightarrow> extractor list \<Rightarrow> document \<Rightarrow> world \<Rightarrow> (exn + result_bundle) \<times> world" where
  "extract_next cv exts d w = (extract_document cv exts d, w\<lparr>pulled := pulled w @ [d]\<rparr>)"

section \<open>Running builders\<close>

definition fs_do :: "fs_op \<Rightarrow> world \<Rightarrow> world" where
  "fs_do op w = w\<lparr>fs_log := fs_log w @ [op]\<rparr>"

text \<open>
  Which directories exist is read off the history of calls. \<open>up\<close> is the parent of a
  directory that has been reached: above the working directory a relative path climbs
  with \<^verbatim>\<open>..\<close>, and the parent of a root is the root.
\<close>

definition up :: "path \<Rightarrow> path" where
  "up p =
     (if parts p = [] \<or> last (parts p) = ''..''
      then (if root p = [] then PurePath (root p) (parts p @ [''..'']) else p)
      else PurePath (root p) (butlast (parts p)))"

definition child :: "path \<Rightarrow> string \<Rightarrow> path" where
  "child p c = PurePath (root p) (parts p @ [c])"

text \<open>
  \<^verbatim>\<open>mkdir(parents=True, exist_ok=True)\<close> walks the components of its path from the
  root (or the working directory) and creates each directory that is missing.
\<close>

fun makedirs :: "path set \<Rightarrow> path \<Rightarrow> string list \<Rightarrow> path set" where
  "makedirs D cur [] = D"
| "makedirs D cur (c # cs) =
     (if c = ''..'' then makedirs D (up cur) cs
      else makedirs (insert (child cur c) D) (child cur c) cs)"

text \<open>
  The operating system resolves a path component by component; every component other
  than \<^verbatim>\<open>..\<close> has to name a directory that exists. Symbolic links are not modelled,
  and neither is the name of the working directory inside its parent.
\<close>

fun resolve :: "path set \<Rightarrow> path \<Rightarrow> string list \<Rightarrow> path option" where
  "resolve D cur [] = Some cur"
| "resolve D cur (c # cs) =
     (if c = ''..'' then resolve D (up cur) cs
      else if child cur c \<in> D then resolve D (child cur c) cs
      else None)"

text \<open>
  The directories a call creates. \<^verbatim>\<open>copy_tree\<close> creates its destination; the
  directories inside the copied tree depend on the source tree and are not tracked.
\<close>

fun dirs_step :: "path set \<Rightarrow> fs_op \<Rightarrow> path set" where
  "dirs_step D (MkdirP p) = makedirs D (PurePath (root p) []) (parts p)"
| "dirs_step D (CopyTree src dst) = makedirs D (PurePath (root (Path dst)) []) (parts (Path dst))"
| "dirs_step D (WriteText p s) = D"
| "dirs_step D (WriteJson p j) = D"
| "dirs_step D (CopyFile nb dst) = D"

definition dirs_of :: "fs_op list \<Rightarrow> path set" where
  "dirs_of log = foldl dirs_step {} log"

definition dir_exists :: "fs_op list \<Rightarrow> path \<Rightarrow> bool" where
  "dir_exists log p = (resolve (dirs_of log) (PurePath (root p) []) (parts p) \<noteq> None)"

text \<open>
  Opening a file for writing, as \<^verbatim>\<open>Path.write_text\<close> and \<^verbatim>\<open>Path.open('w')\<close> do:
  the directory that is to hold the file has to exist, otherwise the call raises
  \<^verbatim>\<open>FileNotFoundError\<close> and nothing is written.
\<close>

definition open_w :: "path \<Rightarrow> world \<Rightarrow> exn + unit" where
  "open_w p w =
     (if parts p = [] then Inl (IsADirectoryError (path_str p))
      else if dir_exists (fs_log w) (PurePath (root p) (butlast (parts p))) then Inr ()
      else Inl (FileNotFoundError (path_str p)))"

definition write_text :: "path \<Rightarrow> string \<Rightarrow> world \<Rightarrow> (exn + unit) \<times> world" where
  "write_text p s w =
     (case open_w p w of
        Inl e \<Rightarrow> (Inl e, w)
      | Inr u \<Rightarrow> (Inr (), fs_do (WriteText p s) w))"

definition dump_json :: "path \<Rightarrow> json \<Rightarrow> world \<Rightarrow> (exn + unit) \<times> world" where
  "dump_json p j w =
     (case open_w p w of
        Inl e \<Rightarrow> (Inl e, w)
      | Inr u \<Rightarrow> (Inr (), fs_do (WriteJson p j) w))"

text \<open>
  Each \<^verbatim>\<open>run\<close> is declared \<^verbatim>\<open>def run(self, state={})\<close>: the default is one dictionary
  per function, created when the class body is executed and used by every call that
  passes no state. These are their addresses in the heap.
\<close>

definition BuilderChain_run_default :: ref where
  "BuilderChain_run_default = 0"

definition CopyIPynbBuilder_run_default :: ref where
  "CopyIPynbBuilder_run_default = 1"

definition CopyTreeBuilder_run_default :: ref where
  "CopyTreeBuilder_run_default = 2"

definition StaticHTMLBuilder_run_default :: ref where
  "StaticHTMLBuilder_run_default = 3"

text \<open>The world once the module is imported: four empty default dictionaries.\<close>

definition world0 :: world where
  "world0 = \<lparr>heap = [[], [], [], []], fs_log = [], pulled = []\<rparr>"

definition state_arg :: "ref \<Rightarrow> ref option \<Rightarrow> ref" where
  "state_arg dflt arg = (case arg of None \<Rightarrow> dflt | Some s \<Rightarrow> s)"

text \<open>\<^verbatim>\<open>CopyIPynbBuilder.run\<close>.\<close>

fun copy_all :: "path \<Rightarrow> document list \<Rightarrow> world \<Rightarrow> world" where
  "copy_all dst [] w = w"
| "copy_all dst ((nb, name) # ds) w = copy_all dst ds (fs_do (CopyFile nb dst) w)"

definition CopyIPynbBuilder_run :: "document list \<Rightarrow> path \<Rightarrow> ref option \<Rightarrow> world \<Rightarrow> (exn + ref) \<times> world" where
  "CopyIPynbBuilder_run reader dst arg w =
     (Inr (state_arg CopyIPynbBuilder_run_default arg), copy_all dst reader (fs_do (MkdirP dst) w))"

text \<open>\<^verbatim>\<open>CopyTreeBuilder.run\<close>.\<close>

definition CopyTreeBuilder_run :: "string \<Rightarrow> string \<Rightarrow> ref option \<Rightarrow> world \<Rightarrow> (exn + ref) \<times> world" where
  "CopyTreeBuilder_run src dst arg w =
     (Inr (state_arg CopyTreeBuilder_run_default arg), fs_do (CopyTree src dst) w)"

text \<open>
  \<^verbatim>\<open>StaticHTMLBuilder.__init__\<close>; its defaults are \<^verbatim>\<open>cmdargs={}\<close>,
  \<^verbatim>\<open>template_file=None\<close>, \<^verbatim>\<open>thumbnails=True\<close> and \<^verbatim>\<open>write_css=False\<close>.
\<close>

definition StaticHTMLBuilder_init ::
  "document list \<Rightarrow> string \<Rightarrow> json \<Rightarrow> string option \<Rightarrow> bool \<Rightarrow> bool \<Rightarrow> pyobj" where
  "StaticHTMLBuilder_init reader out_dir cmdargs template_file thumbnails write_css =
     StaticHTMLBuilder reader (Path out_dir) cmdargs write_css
       [MetadataExtractor ''meta'' thumbnails, HTMLExtractor ''html'' template_file]"

text \<open>The dictionary appended to \<^verbatim>\<open>meta['notebooks']\<close> for one bundle.\<close>

definition notebook_entry :: "result_bundle \<Rightarrow> path \<Rightarrow> json" where
  "notebook_entry data rel =
     JDict [(''_id'', JStr (''notebook/'' @ b_name data)),
            (''name'', JStr (b_name data)),
            (''filename'', JStr (b_name data @ ''.ipynb'')),
            (''path'', JStr (path_str rel)),
            (''meta'', b_meta data)]"

text \<open>
  The loop over the bundles (lines 102 to 113). The accumulator is the list
  \<^verbatim>\<open>meta['notebooks']\<close> and the variable \<^verbatim>\<open>css\<close>, which is \<open>None\<close> before the first
  bundle. The HTML file is written before \<^verbatim>\<open>relative_to\<close> can raise; when the
  name of the document has a directory component, the file lies in a directory that this
  builder does not create.
\<close>

fun html_loop ::
  "conversion \<Rightarrow> extractor list \<Rightarrow> path \<Rightarrow> path \<Rightarrow> document list \<Rightarrow>
   json list \<times> string list option \<Rightarrow> world \<Rightarrow> (exn + json list \<times> string list option) \<times> world" where
  "html_loop cv exts out nbs [] acc w = (Inr acc, w)"
| "html_loop cv exts out nbs (d # ds) (notebooks, css) w =
     (case extract_next cv exts d w of
        (Inl e, w1) \<Rightarrow> (Inl e, w1)
      | (Inr data, w1) \<Rightarrow>
          (let path = path_join nbs (b_name data @ ''.html'')
           in case write_text path (html_html (b_html data)) w1 of
                (Inl e, w2) \<Rightarrow> (Inl e, w2)
              | (Inr u, w2) \<Rightarrow>
                  (let css' = Some (inlining_css (b_html data))
                   in case relative_to path out of
                        Inl e \<Rightarrow> (Inl e, w2)
                      | Inr rel \<Rightarrow>
                          html_loop cv exts out nbs ds
                            (notebooks @ [notebook_entry data rel], css') w2)))"

text \<open>The loop over \<^verbatim>\<open>enumerate(css)\<close> (lines 122 to 124).\<close>

fun write_sheets :: "path \<Rightarrow> nat \<Rightarrow> string list \<Rightarrow> world \<Rightarrow> (exn + unit) \<times> world" where
  "write_sheets assets i [] w = (Inr (), w)"
| "write_sheets assets i (sheet # rest) w =
     (case write_text (path_join assets (''nbconvert-'' @ decimal i @ ''.css'')) sheet w of
        (Inl e, w') \<Rightarrow> (Inl e, w')
      | (Inr u, w') \<Rightarrow> write_sheets assets (Suc i) rest w')"

text \<open>Truth value of \<^verbatim>\<open>css\<close>: \<open>None\<close> and the empty list are false.\<close>

fun truthy :: "string list option \<Rightarrow> bool" where
  "truthy None = False"
| "truthy (Some []) = False"
| "truthy (Some (x # xs)) = True"

text \<open>\<^verbatim>\<open>StaticHTMLBuilder.run\<close>.\<close>

definition StaticHTMLBuilder_run ::
  "conversion \<Rightarrow> document list \<Rightarrow> path \<Rightarrow> json \<Rightarrow> bool \<Rightarrow> extractor list \<Rightarrow>
   ref option \<Rightarrow> world \<Rightarrow> (exn + ref) \<times> world" where
  "StaticHTMLBuilder_run cv reader out cmdargs write_css exts arg w =
     (let state = state_arg StaticHTMLBuilder_run_default arg;
          nbs = path_join out ''notebooks'';
          w1 = fs_do (MkdirP nbs) w
      in case html_loop cv exts out nbs reader ([], None) w1 of
           (Inl e, w2) \<Rightarrow> (Inl e, w2)
         | (Inr (notebooks, css), w2) \<Rightarrow>
             (let meta = JDict [(''cmdargs'', cmdargs), (''notebooks'', JList notebooks)]
              in case dump_json (path_join out ''meta.json'') meta w2 of
                   (Inl e, w3) \<Rightarrow> (Inl e, w3)
                 | (Inr u, w3) \<Rightarrow>
                     if write_css \<and> truthy css then
                       (let assets = path_join (path_join out ''assets'') ''css'';
                            w4 = fs_do (MkdirP assets) w3
                        in case css of
                             None \<Rightarrow> (Inl (TypeError ''NoneType object is not iterable''), w4)
                           | Some sheets \<Rightarrow>
                               (case write_sheets assets 0 sheets w4 of
                                  (Inl e, w5) \<Rightarrow> (Inl e, w5)
                                | (Inr u', w5) \<Rightarrow> (Inr state, w5)))
                     else (Inr state, w3)))"

text \<open>
  \<^verbatim>\<open>s.run(state)\<close> for any object, and \<^verbatim>\<open>BuilderChain.run\<close> with its loop over the
  steps. The base class \<^verbatim>\<open>Builder\<close> defines no \<^verbatim>\<open>run\<close>, and neither do the values
  that are not builders: the attribute lookup raises. What a step did before it raised
  stays done.
\<close>

fun run :: "conversion \<Rightarrow> pyobj \<Rightarrow> ref option \<Rightarrow> world \<Rightarrow> (exn + ref) \<times> world"
and run_steps :: "conversion \<Rightarrow> pyobj list \<Rightarrow> ref \<Rightarrow> world \<Rightarrow> (exn + ref) \<times> world" where
  "run cv (BuilderChain ss) arg w = run_steps cv ss (state_arg BuilderChain_run_default arg) w"
| "run cv (CopyIPynbBuilder reader dst) arg w = CopyIPynbBuilder_run reader dst arg w"
| "run cv (CopyTreeBuilder src dst) arg w = CopyTreeBuilder_run src dst arg w"
| "run cv (StaticHTMLBuilder reader out cmdargs write_css exts) arg w =
     StaticHTMLBuilder_run cv reader out cmdargs write_css exts arg w"
| "run cv (UserBuilder f) arg w = f arg w"
| "run cv Builder arg w = (Inl (AttributeError ''run''), w)"
| "run cv PyNone arg w = (Inl (AttributeError ''run''), w)"
| "run cv (PyInt i) arg w = (Inl (AttributeError ''run''), w)"
| "run cv (PyStr s) arg w = (Inl (AttributeError ''run''), w)"
| "run cv (PyList xs) arg w = (Inl (AttributeError ''run''), w)"
| "run_steps cv [] state w = (Inr state, w)"
| "run_steps cv (s # ss) state w =
     (case run cv s (Some state) w of
        (Inl e, w') \<Rightarrow> (Inl e, w')
      | (Inr state', w') \<Rightarrow> run_steps cv ss state' w')"

section \<open>The application\<close>

datatype StaticGen = StaticGen (builder: pyobj)

text \<open>\<^verbatim>\<open>StaticGen.__init__\<close>; its defaults are \<^verbatim>\<open>cmdargs={}\<close> and \<^verbatim>\<open>template_file=None\<close>.\<close>

definition StaticGen_init ::
  "document list \<Rightarrow> string \<Rightarrow> pyobj \<Rightarrow> json \<Rightarrow> string option \<Rightarrow> exn + StaticGen" where
  "StaticGen_init reader out_dir finishing cmdargs template_file =
     (case rshift (StaticHTMLBuilder_init reader out_dir cmdargs template_file True True) finishing of
        Inl e \<Rightarrow> Inl e
      | Inr chain \<Rightarrow> Inr (StaticGen chain))"

text \<open>\<^verbatim>\<open>StaticGen.build\<close>: \<^verbatim>\<open>self.builder.run()\<close>, the result dropped.\<close>

definition build :: "conversion \<Rightarrow> StaticGen \<Rightarrow> world \<Rightarrow> (exn + unit) \<times> world" where
  "build cv self w =
     (case run cv (builder self) None w of
        (Inl e, w') \<Rightarrow> (Inl e, w')
      | (Inr state, w') \<Rightarrow> (Inr (), w'))"

section \<open>Auxiliary definitions for the statements\<close>

text \<open>
  What an operand contributes to a composition: \<^verbatim>\<open>*other.steps\<close> when it is a
  \<^verbatim>\<open>BuilderChain\<close>, the operand itself otherwise.
\<close>

definition operand_steps :: "pyobj \<Rightarrow> pyobj list" where
  "operand_steps x = (if isinstance_BuilderChain x then steps x else [x])"


text \<open>\<^verbatim>\<open>d.get(k, default)\<close> and \<^verbatim>\<open>d[k] = v\<close> on a dictionary.\<close>

definition dict_get :: "(string \<times> json) list \<Rightarrow> string \<Rightarrow> json \<Rightarrow> json" where
  "dict_get d k dflt = (case map_of d k of None \<Rightarrow> dflt | Some v \<Rightarrow> v)"

fun dict_set :: "string \<Rightarrow> json \<Rightarrow> (string \<times> json) list \<Rightarrow> (string \<times> json) list" where
  "dict_set k v [] = [(k, v)]"
| "dict_set k v ((k', v') # d) = (if k' = k then (k, v) # d else (k', v') # dict_set k v d)"

text \<open>
  A builder written against this package, used as a concrete input below:
  \<^verbatim>\<open>
  class Counting(Builder):
      def run(self, state):
          state['runs'] = state.get('runs', 0) + 1
          return state
  \<close>
\<close>

definition Counting_run :: "ref option \<Rightarrow> world \<Rightarrow> (exn + ref) \<times> world" where
  "Counting_run arg w =
     (case arg of
        None \<Rightarrow> (Inl (TypeError ''run() missing 1 required positional argument''), w)
      | Some r \<Rightarrow>
          if r < length (heap w) then
            (case dict_get (heap w ! r) ''runs'' (JInt 0) of
               JInt n \<Rightarrow> (Inr r, w\<lparr>heap := (heap w)[r := dict_set ''runs'' (JInt (n + 1)) (heap w ! r)]\<rparr>)
             | _ \<Rightarrow> (Inl (TypeError ''unsupported operand type(s) for +''), w))
          else (Inl (Raised ''dangling state reference''), w))"

text \<open>
  A renderer used as a concrete input below: it fails on the document named
  \<^verbatim>\<open>broken\<close>; the page of the document named \<^verbatim>\<open>a\<close> carries one stylesheet, every
  other page two.
\<close>

definition sample_conversion :: conversion where
  "sample_conversion exts d =
     (if snd d = ''broken'' then Inl (Raised ''render failed'')
      else Inr (JDict [(''source'', JStr (fst d))],
                \<lparr>html_html = ''<html>'' @ snd d @ ''</html>'',
                 inlining_css = (if snd d = ''a'' then [''body{}''] else [''a{}'', ''b{}''])\<rparr>))"

section \<open>Composition of builders\<close>

lemma isinstance_BuilderChain_Builder:
  "isinstance_BuilderChain x \<Longrightarrow> isinstance_Builder x"
  by (cases x) simp_all

lemma rshift_Builder:
  "isinstance_Builder a \<Longrightarrow> isinstance_Builder b \<Longrightarrow>
   rshift a b = Inr (BuilderChain (operand_steps a @ operand_steps b))"
  by (cases a; cases b) (simp_all add: rshift_def Builder_rshift_def BuilderChain_rshift_def operand_steps_def)




subsection \<open>Claim C5: composing with a value that is no Builder\<close>

text \<open>
  C5. For a left operand \<open>b\<close> that is a Builder (a chain or not) and any object \<open>x\<close>:
  when \<open>x\<close> is not an instance of \<^verbatim>\<open>Builder\<close>, \<^verbatim>\<open>b >> x\<close> raises \<^verbatim>\<open>ValueError\<close>;
  when it is, \<^verbatim>\<open>b >> x\<close> raises nothing and returns a \<^verbatim>\<open>BuilderChain\<close>. The
  composition is a function of the two objects alone: it takes no world, so nothing is
  run while composing.
\<close>

theorem rshift_type_check:
  "isinstance_Builder b \<Longrightarrow>
     (\<not> isinstance_Builder x \<longrightarrow>
        rshift b x = Inl (ValueError (''Expected object of type Builder, found '' @ type_str x)))
   \<and> (isinstance_Builder x \<longrightarrow> (\<exists>c. rshift b x = Inr c \<and> isinstance_BuilderChain c))"
  by (cases b; cases x) (simp_all add: rshift_def Builder_rshift_def BuilderChain_rshift_def)

theorem rshift_type_check_witness:
  "isinstance_Builder (CopyTreeBuilder ''front'' ''_site'')
   \<and> \<not> isinstance_Builder (PyInt 3)
   \<and> rshift (CopyTreeBuilder ''front'' ''_site'') (PyInt 3)
       = Inl (ValueError ''Expected object of type Builder, found <class 'int'>'')
   \<and> isinstance_Builder Builder
   \<and> (\<exists>c. rshift (CopyTreeBuilder ''front'' ''_site'') Builder = Inr c \<and> isinstance_BuilderChain c)"
  using rshift_type_check [of "CopyTreeBuilder ''front'' ''_site''" "PyInt 3"]
        rshift_type_check [of "CopyTreeBuilder ''front'' ''_site''" Builder]
  by simp

subsection \<open>Claim C1: composition is associative and flattens\<close>




subsection \<open>Claim C10: the empty chain\<close>




section \<open>Directories\<close>





























section \<open>The static HTML builder\<close>
















text \<open>
  A name with a directory component: on a fresh filesystem the page lies in a directory
  that nothing created, and the run ends at that page.
\<close>

lemma StaticHTMLBuilder_run_missing_directory:
  "run sample_conversion
     (StaticHTMLBuilder [(''nb/sub/x.ipynb'', ''sub/x'')] (Path ''_site'') (JList []) True
        [MetadataExtractor ''meta'' True, HTMLExtractor ''html'' None])
     None world0 =
   (Inl (FileNotFoundError ''_site/notebooks/sub/x.html''),
    \<lparr>heap = [[], [], [], []],
     fs_log = [MkdirP (PurePath [] [''_site'', ''notebooks''])],
     pulled = [(''nb/sub/x.ipynb'', ''sub/x'')]\<rparr>)"
  by (simp add: StaticHTMLBuilder_run_def sample_conversion_def extract_next_def extract_document_def
      write_text_def open_w_def dir_exists_def dirs_of_def up_def child_def path_join_def Path_def
      path_str_def fs_do_def world0_def Let_def)

subsection \<open>Claim C3: an empty Document Source\<close>



subsection \<open>Claim C4: the order and the fields of the index entries\<close>



subsection \<open>Claim C2: the stylesheets of the last document\<close>



subsection \<open>Claim C6: the state is passed through\<close>



subsection \<open>Claim C8: a failing extraction\<close>



section \<open>The default state\<close>

subsection \<open>Claim C7: the default of run\<close>

text \<open>
  C7. The claim is that a \<^verbatim>\<open>run()\<close> without a state argument starts from a fresh empty
  dictionary. The code declares \<^verbatim>\<open>def run(self, state={})\<close>, whose default is one
  dictionary for all calls. On the chain \<^verbatim>\<open>BuilderChain(Counting())\<close>, in the world as
  it is after import, the first \<^verbatim>\<open>run()\<close> returns the default dictionary holding
  \<^verbatim>\<open>{'runs': 1}\<close>, and the second \<^verbatim>\<open>run()\<close> starts from that dictionary, not from an
  empty one: it returns the same dictionary holding \<^verbatim>\<open>{'runs': 2}\<close>.
\<close>

theorem BuilderChain_run_default_shared:
  "run sample_conversion (BuilderChain [UserBuilder Counting_run]) None world0 =
     (Inr BuilderChain_run_default, world0\<lparr>heap := [[(''runs'', JInt 1)], [], [], []]\<rparr>)
   \<and> run sample_conversion (BuilderChain [UserBuilder Counting_run]) None
         (world0\<lparr>heap := [[(''runs'', JInt 1)], [], [], []]\<rparr>) =
     (Inr BuilderChain_run_default, world0\<lparr>heap := [[(''runs'', JInt 2)], [], [], []]\<rparr>)"
  by (simp add: state_arg_def BuilderChain_run_default_def Counting_run_def world0_def dict_get_def)

subsection \<open>Claim C9: the application\<close>

lemma StaticGen_init_wires:
  assumes "isinstance_Builder finishing"
  shows "StaticGen_init reader out_dir finishing cmdargs template_file =
           Inr (StaticGen (BuilderChain
             (StaticHTMLBuilder reader (Path out_dir) cmdargs True
                [MetadataExtractor ''meta'' True, HTMLExtractor ''html'' template_file]
              # operand_steps finishing)))"
  using assms
  by (simp add: StaticGen_init_def StaticHTMLBuilder_init_def rshift_Builder operand_steps_def)

lemma build_runs_chain_once:
  "build cv (StaticGen (BuilderChain ss)) w =
     (case run_steps cv ss BuilderChain_run_default w of
        (Inl e, w') \<Rightarrow> (Inl e, w')
      | (Inr state, w') \<Rightarrow> (Inr (), w'))"
  by (simp add: build_def state_arg_def)

text \<open>
  C9. \<^verbatim>\<open>StaticGen.__init__\<close> composes the \<^verbatim>\<open>StaticHTMLBuilder\<close> (with
  \<^verbatim>\<open>thumbnails=True\<close> and \<^verbatim>\<open>write_css=True\<close>) with the finishing builder, and
  \<^verbatim>\<open>build\<close> runs the chain once without a state argument: the two lemmas above. The
  state it starts from is the default dictionary of \<^verbatim>\<open>BuilderChain.run\<close>, which is empty
  only as long as no earlier run has written to it. With \<^verbatim>\<open>Counting()\<close> as the finishing
  builder, the first \<^verbatim>\<open>build()\<close> leaves \<^verbatim>\<open>{'runs': 1}\<close> in that dictionary, and a
  second \<^verbatim>\<open>build()\<close> starts from it and leaves \<^verbatim>\<open>{'runs': 2}\<close>.
\<close>

theorem StaticGen_build_twice_state_leaks:
  "StaticGen_init [] ''_site'' (UserBuilder Counting_run) (JDict []) None =
     Inr (StaticGen (BuilderChain
            [StaticHTMLBuilder [] (PurePath [] [''_site'']) (JDict []) True
               [MetadataExtractor ''meta'' True, HTMLExtractor ''html'' None],
             UserBuilder Counting_run]))
   \<and> build sample_conversion
        (StaticGen (BuilderChain
            [StaticHTMLBuilder [] (PurePath [] [''_site'']) (JDict []) True
               [MetadataExtractor ''meta'' True, HTMLExtractor ''html'' None],
             UserBuilder Counting_run]))
        world0 =
       (Inr (),
        \<lparr>heap = [[(''runs'', JInt 1)], [], [], []],
         fs_log = [MkdirP (PurePath [] [''_site'', ''notebooks'']),
                   WriteJson (PurePath [] [''_site'', ''meta.json''])
                     (JDict [(''cmdargs'', JDict []), (''notebooks'', JList [])])],
         pulled = []\<rparr>)
   \<and> build sample_conversion
        (StaticGen (BuilderChain
            [StaticHTMLBuilder [] (PurePath [] [''_site'']) (JDict []) True
               [MetadataExtractor ''meta'' True, HTMLExtractor ''html'' None],
             UserBuilder Counting_run]))
        \<lparr>heap = [[(''runs'', JInt 1)], [], [], []],
         fs_log = [MkdirP (PurePath [] [''_site'', ''notebooks'']),
                   WriteJson (PurePath [] [''_site'', ''meta.json''])
                     (JDict [(''cmdargs'', JDict []), (''notebooks'', JList [])])],
         pulled = []\<rparr> =
       (Inr (),
        \<lparr>heap = [[(''runs'', JInt 2)], [], [], []],
         fs_log = [MkdirP (PurePath [] [''_site'', ''notebooks'']),
                   WriteJson (PurePath [] [''_site'', ''meta.json''])
                     (JDict [(''cmdargs'', JDict []), (''notebooks'', JList [])]),
                   MkdirP (PurePath [] [''_site'', ''notebooks'']),
                   WriteJson (PurePath [] [''_site'', ''meta.json''])
                     (JDict [(''cmdargs'', JDict []), (''notebooks'', JList [])])],
         pulled = []\<rparr>)"
  by (simp add: StaticGen_init_def StaticHTMLBuilder_init_def rshift_def Builder_rshift_def
      build_def state_arg_def BuilderChain_run_default_def StaticHTMLBuilder_run_def
      Counting_run_def world0_def dict_get_def fs_do_def path_join_def Path_def
      dump_json_def open_w_def dir_exists_def dirs_of_def up_def child_def Let_def)

end
